theory Spec2Isabelle
  imports Complex_Main
begin

section \<open>Data model (src/types/index.ts)\<close>

text \<open>
  The interfaces of \<^verbatim>\<open>types/index.ts\<close> as records. A TypeScript \<^verbatim>\<open>number\<close> is
  modelled by the type its column has in the migration: \<^verbatim>\<open>integer\<close> columns
  (\<^verbatim>\<open>search_volume\<close>, \<^verbatim>\<open>competition_index\<close>, \<^verbatim>\<open>click_volume\<close>, \<^verbatim>\<open>peak_month\<close>)
  are \<open>int\<close>, \<^verbatim>\<open>float\<close> columns are \<open>real\<close>: the number the database holds. JavaScript
  computes with binary64 values; the services read a \<^verbatim>\<open>float\<close> field as the binary64
  value nearest to it and round every arithmetic result (section on binary64 below);
  a value of an \<^verbatim>\<open>integer\<close> column has 32 bits and is a binary64 value as it is.
  Field names that several interfaces share (\<^verbatim>\<open>id\<close>, \<^verbatim>\<open>keyword_id\<close>, \<^verbatim>\<open>keyword\<close>, ...)
  carry a prefix in all but one of them.
\<close>

datatype trend_status = Rising | Stable | Declining | Peak | Seasonal

datatype revenue_tier = Low | Medium | High | Very_high

record keyword =
  kw_id :: string
  keyword :: string
  search_volume :: int
  competition_index :: int
  category :: string
  trend_status :: trend_status
  created_at :: string
  updated_at :: string

record keyword_metrics =
  km_id :: string
  km_keyword_id :: string
  click_volume :: int
  conversion_potential :: real
  niche_saturation :: real
  commercial_intent :: real
  recorded_at :: string

record trend_analysis =
  ta_id :: string
  ta_keyword_id :: string
  velocity_score :: real
  seasonality_pattern :: string
  peak_month :: "int option"
  growth_7d :: real
  growth_30d :: real
  analyzed_at :: string

record opportunity =
  opp_keyword :: string
  opportunity_score :: int
  opp_search_volume :: int
  opp_competition_index :: int
  opp_category :: string
  reason :: string
  potential_revenue_tier :: revenue_tier

section \<open>JavaScript primitives used by the services\<close>

subsection \<open>Binary64 arithmetic\<close>

text \<open>
  A JavaScript number is an IEEE 754 binary64 value. The model works with the real
  number such a value stands for: \<open>double x\<close> is the binary64 value nearest to the real
  \<open>x\<close>, a tie going to the even significand, and each arithmetic operator rounds its
  exact result with \<open>double\<close>. A value in the binade \<open>[2^e, 2^(e+1))\<close> is a multiple of
  \<open>2^(e - 52)\<close>, and of \<open>2^(-1074)\<close> below \<open>2^(-1022)\<close>. Infinity and NaN are not
  values of the model: a result beyond the largest binary64 value is rounded like any
  other.
\<close>

text \<open>The number of binary digits of a natural number.\<close>

fun bit_length :: "nat \<Rightarrow> nat" where
  "bit_length n = (if n = 0 then 0 else Suc (bit_length (n div 2)))"

declare bit_length.simps [simp del]

text \<open>The exponent \<open>e\<close> of a real \<open>x \<noteq> 0\<close>: \<open>2^e \<le> \<bar>x\<bar> < 2^(e+1)\<close>.\<close>

definition exponent :: "real \<Rightarrow> int" where
  "exponent x =
     (if 1 \<le> \<bar>x\<bar> then int (bit_length (nat \<lfloor>\<bar>x\<bar>\<rfloor>)) - 1
      else - int (bit_length (nat (\<lceil>1 / \<bar>x\<bar>\<rceil> - 1))))"

text \<open>The nearest integer, a tie going to the even one.\<close>

definition round_half_even :: "real \<Rightarrow> int" where
  "round_half_even x =
     (let n = \<lfloor>x\<rfloor>; d = x - of_int n
      in if d < 1 / 2 then n else if 1 / 2 < d then n + 1 else if even n then n else n + 1)"

text \<open>The distance between the binary64 values around \<open>x\<close>.\<close>

definition ulp :: "real \<Rightarrow> real" where
  "ulp x = 2 powi (max (exponent x) (- 1022) - 52)"

definition double :: "real \<Rightarrow> real" where
  "double x = of_int (round_half_even (x / ulp x)) * ulp x"

text \<open>The operators \<^verbatim>\<open>+\<close>, \<^verbatim>\<open>-\<close>, \<^verbatim>\<open>*\<close> and \<^verbatim>\<open>/\<close> on numbers.\<close>

definition js_add :: "real \<Rightarrow> real \<Rightarrow> real" where
  "js_add a b = double (a + b)"

definition js_sub :: "real \<Rightarrow> real \<Rightarrow> real" where
  "js_sub a b = double (a - b)"

definition js_mul :: "real \<Rightarrow> real \<Rightarrow> real" where
  "js_mul a b = double (a * b)"

definition js_div :: "real \<Rightarrow> real \<Rightarrow> real" where
  "js_div a b = double (a / b)"

subsection \<open>Rounding to an integer, text and arrays\<close>

text \<open>
  \<^verbatim>\<open>Math.round(x)\<close> is the integer nearest to \<open>x\<close>, a tie going up:
  \<open>\<lfloor>x + 1/2\<rfloor>\<close>.
\<close>

definition js_round :: "real \<Rightarrow> int" where
  "js_round x = \<lfloor>x + 1 / 2\<rfloor>"

text \<open>
  The text a template literal \<^verbatim>\<open>${n}\<close> gives for an integer \<open>n\<close>: its decimal
  digits, with a leading minus sign when it is negative.
\<close>

definition digit_char :: "nat \<Rightarrow> char" where
  "digit_char d = ''0123456789'' ! d"

fun decimal :: "nat \<Rightarrow> string" where
  "decimal n =
     (if 10 \<le> n then decimal (n div 10) @ [digit_char (n mod 10)] else [digit_char n])"

declare decimal.simps [simp del]

definition number_text :: "int \<Rightarrow> string" where
  "number_text i = (if 0 \<le> i then decimal (nat i) else CHR ''-'' # decimal (nat (- i)))"

text \<open>\<^verbatim>\<open>Array.prototype.join(sep)\<close>: the separator stands between elements only.\<close>

fun join :: "string \<Rightarrow> string list \<Rightarrow> string" where
  "join sep [] = []"
| "join sep [x] = x"
| "join sep (x # y # zs) = x @ sep @ join sep (y # zs)"

section \<open>ScoringEngine (services/scoring.ts)\<close>

text \<open>
  \<^verbatim>\<open>generateReason\<close>: five independent blocks push at most one phrase each onto
  \<^verbatim>\<open>factors\<close>, in this order; the phrases are joined with \<^verbatim>\<open>'. '\<close>, and an empty
  list gives the fallback text.
\<close>

definition generateReason ::
  "keyword \<Rightarrow> keyword_metrics option \<Rightarrow> trend_analysis option \<Rightarrow> string" where
  "generateReason k metrics trend =
     (let volume_factor =
            (if search_volume k > 500
             then [''High search volume ('' @ number_text (search_volume k) @ '' searches)'']
             else []);
          competition_factor =
            (if competition_index k < 40 then [''Low competition'']
             else if competition_index k > 70 then [''High competition market'']
             else []);
          velocity_factor =
            (case trend of
               None \<Rightarrow> []
             | Some t \<Rightarrow>
                 if double (velocity_score t) > 50 then [''Rapidly rising trend'']
                 else if double (velocity_score t) > 20 then [''Growing trend'']
                 else []);
          status_factor =
            (if trend_status k = Peak then [''Currently at peak popularity'']
             else if trend_status k = Rising then [''Trending upward'']
             else []);
          intent_factor =
            (case metrics of
               None \<Rightarrow> []
             | Some m \<Rightarrow>
                 if double (commercial_intent m) > 70 then [''High buyer intent''] else []);
          factors =
            volume_factor @ competition_factor @ velocity_factor @ status_factor @ intent_factor
      in if length factors > 0 then join ''. '' factors else ''Moderate opportunity'')"

definition categorizeRevenueTier :: "int \<Rightarrow> int \<Rightarrow> int \<Rightarrow> revenue_tier" where
  "categorizeRevenueTier opportunityScore searchVolume competitionIndex =
     (if opportunityScore > 80 \<and> searchVolume > 1000 \<and> competitionIndex < 30 then Very_high
      else if opportunityScore > 70 \<and> searchVolume > 500 then High
      else if opportunityScore > 50 then Medium
      else Low)"

text \<open>
  The local constant \<^verbatim>\<open>opportunityScore\<close> of \<^verbatim>\<open>calculateOpportunityScore\<close>: the
  rounded weighted sum, before the clamp. An absent trend has velocity 0 and absent
  metrics have saturation 50. The sum is taken from left to right, and the literals
  \<^verbatim>\<open>0.2\<close>, \<^verbatim>\<open>0.3\<close>, \<^verbatim>\<open>0.4\<close> and \<^verbatim>\<open>1.7\<close> are the binary64 values nearest to them.
\<close>

definition opportunityScore ::
  "keyword \<Rightarrow> keyword_metrics option \<Rightarrow> trend_analysis option \<Rightarrow> int" where
  "opportunityScore k metrics trend =
     (let searchVolume = search_volume k;
          competitionIndex = competition_index k;
          velocityScore = (case trend of None \<Rightarrow> 0 | Some t \<Rightarrow> double (velocity_score t));
          niche_saturation =
            (case metrics of None \<Rightarrow> 50 | Some m \<Rightarrow> double (niche_saturation m));
          volumeScore = min (js_div (real_of_int searchVolume) 100) 100;
          competitionScore = js_mul (js_sub 100 (real_of_int competitionIndex)) (double 0.4);
          trendScore = js_mul (max 0 velocityScore) (double 0.3);
          saturationScore = js_mul (js_sub 100 niche_saturation) (double 0.2)
      in js_round
           (js_div
              (js_add
                 (js_add (js_add (js_mul volumeScore (double 0.2)) competitionScore) trendScore)
                 saturationScore)
              (double 1.7)))"

definition calculateOpportunityScore ::
  "keyword \<Rightarrow> keyword_metrics option \<Rightarrow> trend_analysis option \<Rightarrow> opportunity" where
  "calculateOpportunityScore k metrics trend =
     (let searchVolume = search_volume k;
          competitionIndex = competition_index k;
          score = opportunityScore k metrics trend;
          reason = generateReason k metrics trend;
          revenueTier = categorizeRevenueTier score searchVolume competitionIndex
      in \<lparr> opp_keyword = keyword k,
           opportunity_score = min 100 (max 0 score),
           opp_search_volume = searchVolume,
           opp_competition_index = competitionIndex,
           opp_category = category k,
           reason = reason,
           potential_revenue_tier = revenueTier \<rparr>)"

definition calculateSEOScore :: "keyword \<Rightarrow> keyword_metrics option \<Rightarrow> int" where
  "calculateSEOScore k metrics =
     (let baseScore = min (js_div (real_of_int (search_volume k)) 20) 50;
          competitiveScore = js_mul (js_sub 100 (real_of_int (competition_index k))) (double 0.3);
          conversionScore =
            js_mul (case metrics of None \<Rightarrow> 50 | Some m \<Rightarrow> double (conversion_potential m))
              (double 0.2)
      in js_round (js_add (js_add baseScore competitiveScore) conversionScore))"

text \<open>
  The two growth rates are numbers: the binary64 values nearest to the given reals.
\<close>

definition calculateTrendVelocity :: "real \<Rightarrow> real \<Rightarrow> real" where
  "calculateTrendVelocity growthSevenDay growthThirtyDay =
     (if double growthSevenDay > double growthThirtyDay
      then min 100 (js_mul (js_sub (double growthSevenDay) (double growthThirtyDay)) 2)
      else max (- 100) (js_mul (js_sub (double growthSevenDay) (double growthThirtyDay)) 2))"

section \<open>The database client (db/client.ts, not among the sources)\<close>

text \<open>
  Every read of the services awaits a query of the module-level \<^verbatim>\<open>supabase\<close> client
  and destructures the object it resolves to, \<^verbatim>\<open>{ data, error }\<close>. A query does not
  throw: when it fails, \<^verbatim>\<open>data\<close> is \<^verbatim>\<open>null\<close> and \<^verbatim>\<open>error\<close> is an object with a
  \<^verbatim>\<open>message\<close>; when it succeeds, \<^verbatim>\<open>error\<close> is \<^verbatim>\<open>null\<close>. With \<^verbatim>\<open>maybeSingle()\<close>, a
  query that matches no row succeeds with \<^verbatim>\<open>data\<close> \<^verbatim>\<open>null\<close>. The \<open>error\<close> field of a
  response holds the message of the error object.
\<close>

record 'a response =
  data :: "'a option"
  error :: "string option"

text \<open>
  The client is a parameter of the services: one field for each query they build. The
  filters, the order and the limit of a query are the database's work; a field gives the
  response to the query with the given arguments.
\<close>

record database =
  select_keywords :: "int \<Rightarrow> int \<Rightarrow> keyword list response"
  select_latest_metrics :: "string \<Rightarrow> keyword_metrics response"
  select_latest_trend :: "string \<Rightarrow> trend_analysis response"
  select_competition_index :: "string \<Rightarrow> int list response"

text \<open>A thrown \<^verbatim>\<open>new Error(message)\<close>.\<close>

datatype js_error = Error string

text \<open>
  \<^verbatim>\<open>${error?.message}\<close> in a template literal: the text \<^verbatim>\<open>undefined\<close> when there is
  no error object.
\<close>

definition error_message :: "string option \<Rightarrow> string" where
  "error_message e = (case e of None \<Rightarrow> ''undefined'' | Some m \<Rightarrow> m)"

text \<open>
  \<^verbatim>\<open>Array.prototype.sort(compare)\<close>. ECMAScript requires the sort to be stable and,
  for a consistent comparator, to leave \<open>a\<close> before \<open>b\<close> only if \<open>compare a b \<le> 0\<close>; every
  such sort returns the same list. The model is the stable insertion sort.
\<close>

fun js_insert :: "('a \<Rightarrow> 'a \<Rightarrow> int) \<Rightarrow> 'a \<Rightarrow> 'a list \<Rightarrow> 'a list" where
  "js_insert compare x [] = [x]"
| "js_insert compare x (y # ys) =
     (if compare x y \<le> 0 then x # y # ys else y # js_insert compare x ys)"

definition js_sort :: "('a \<Rightarrow> 'a \<Rightarrow> int) \<Rightarrow> 'a list \<Rightarrow> 'a list" where
  "js_sort compare xs = foldr (js_insert compare) xs []"

text \<open>
  A JavaScript number that may be NaN, and a value that may be \<^verbatim>\<open>undefined\<close> (as
  \<open>None\<close>), for the two fields of the competition summary that can be either.
\<close>

datatype js_number = Num int | NaN

section \<open>KeywordAnalyzer (services/keyword-analyzer.ts)\<close>

text \<open>
  The \<^verbatim>\<open>for\<close> loop of \<^verbatim>\<open>findOpportunities\<close>: for each keyword it reads the latest
  metrics and the latest trend, keeps only \<^verbatim>\<open>data\<close> of either response (the \<^verbatim>\<open>error\<close>
  field is not destructured), scores the keyword and pushes the result.
\<close>

fun score_keywords :: "database \<Rightarrow> opportunity list \<Rightarrow> keyword list \<Rightarrow> opportunity list" where
  "score_keywords db opportunities [] = opportunities"
| "score_keywords db opportunities (k # ks) =
     (let metrics = data (select_latest_metrics db (kw_id k));
          trend = data (select_latest_trend db (kw_id k));
          opportunity = calculateOpportunityScore k metrics trend
      in score_keywords db (opportunities @ [opportunity]) ks)"

definition findOpportunities :: "database \<Rightarrow> int \<Rightarrow> int \<Rightarrow> js_error + opportunity list" where
  "findOpportunities db minSearchVolume maxCompetitionIndex =
     (let r = select_keywords db minSearchVolume maxCompetitionIndex
      in case data r of
           None \<Rightarrow> Inl (Error (''Failed to fetch keywords: '' @ error_message (error r)))
         | Some keywords \<Rightarrow>
             if error r \<noteq> None
             then Inl (Error (''Failed to fetch keywords: '' @ error_message (error r)))
             else Inr (js_sort (\<lambda>a b. opportunity_score b - opportunity_score a)
                        (score_keywords db [] keywords)))"

record competition_summary =
  low_competition :: nat
  medium_competition :: nat
  high_competition :: nat
  average :: js_number
  median :: "int option"

text \<open>
  \<^verbatim>\<open>getCompetitionAnalysis\<close>. With no index, \<^verbatim>\<open>reduce\<close> gives 0 and \<^verbatim>\<open>len\<close> is 0: the
  quotient \<^verbatim>\<open>0 / 0\<close> is NaN and so is its \<^verbatim>\<open>Math.round\<close>. An array read past the end
  gives \<^verbatim>\<open>undefined\<close>.
\<close>

definition getCompetitionAnalysis :: "database \<Rightarrow> string \<Rightarrow> js_error + competition_summary" where
  "getCompetitionAnalysis db cat =
     (let r = select_competition_index db cat
      in case data r of
           None \<Rightarrow> Inl (Error (''Failed to analyze competition: '' @ error_message (error r)))
         | Some rows \<Rightarrow>
             if error r \<noteq> None
             then Inl (Error (''Failed to analyze competition: '' @ error_message (error r)))
             else
               (let indices = js_sort (\<lambda>a b. a - b) rows;
                    len = length indices
                in Inr \<lparr> low_competition = length (filter (\<lambda>i. i < 33) indices),
                         medium_competition = length (filter (\<lambda>i. i \<ge> 33 \<and> i < 66) indices),
                         high_competition = length (filter (\<lambda>i. i \<ge> 66) indices),
                         average =
                           (if len = 0 then NaN
                            else Num (js_round (js_div (real_of_int (foldl (\<lambda>a b. a + b) 0 indices))
                                                  (real len)))),
                         median =
                           (if len div 2 < len then Some (indices ! (len div 2))
                            else None) \<rparr>))"

text \<open>
  The lower median of a non-empty sequence, in the usual sense of the term that the
  specification uses for the reported median: the middle element of the ascending order
  when the length is odd, the lower of the two middle elements when it is even.
\<close>

definition lower_median :: "int list \<Rightarrow> int" where
  "lower_median rows = sort rows ! ((length rows - 1) div 2)"

section \<open>Example inputs\<close>

definition peak_keyword :: keyword where
  "peak_keyword =
     \<lparr> kw_id = ''k1'', keyword = ''mojo dojo house'', search_volume = 600,
       competition_index = 20, category = ''barbie-core'', trend_status = Peak,
       created_at = ''2026-01-14'', updated_at = ''2026-01-14'' \<rparr>"

definition best_keyword :: keyword where
  "best_keyword =
     \<lparr> kw_id = ''k2'', keyword = ''tesla cybertruck'', search_volume = 1000000,
       competition_index = 0, category = ''automotive'', trend_status = Rising,
       created_at = ''2026-01-14'', updated_at = ''2026-01-14'' \<rparr>"

definition best_metrics :: keyword_metrics where
  "best_metrics =
     \<lparr> km_id = ''m2'', km_keyword_id = ''k2'', click_volume = 5000,
       conversion_potential = 100, niche_saturation = 0, commercial_intent = 100,
       recorded_at = ''2026-01-14'' \<rparr>"

definition best_trend :: trend_analysis where
  "best_trend =
     \<lparr> ta_id = ''t2'', ta_keyword_id = ''k2'', velocity_score = 100,
       seasonality_pattern = ''stable'', peak_month = None, growth_7d = 60, growth_30d = 0,
       analyzed_at = ''2026-01-14'' \<rparr>"

text \<open>A response with no row and no error, and a keyword with only the scored fields chosen.\<close>

definition no_row :: "'a response" where
  "no_row = \<lparr> data = None, error = None \<rparr>"

definition kw :: "string \<Rightarrow> int \<Rightarrow> int \<Rightarrow> keyword" where
  "kw name volume competition =
     \<lparr> kw_id = name, keyword = name, search_volume = volume,
       competition_index = competition, category = ''anime'', trend_status = Stable,
       created_at = ''2026-01-14'', updated_at = ''2026-01-14'' \<rparr>"

text \<open>
  A database with three candidates, in the order the query gives them (volume
  descending), none with metrics or a trend; the first and the third score the same.
  Its category has the competition indices 10, 20, 30, 40.
\<close>

definition tie_db :: database where
  "tie_db =
     \<lparr> select_keywords =
         (\<lambda>minv maxc. \<lparr> data = Some [kw ''a'' 900 30, kw ''b'' 800 10, kw ''c'' 700 30],
                         error = None \<rparr>),
       select_latest_metrics = (\<lambda>i. no_row),
       select_latest_trend = (\<lambda>i. no_row),
       select_competition_index = (\<lambda>c. \<lparr> data = Some [10, 20, 30, 40], error = None \<rparr>) \<rparr>"

text \<open>
  A database whose candidate query succeeds with one keyword and whose metrics query
  fails; its categories have no keyword.
\<close>

definition failing_metrics_db :: database where
  "failing_metrics_db =
     \<lparr> select_keywords = (\<lambda>minv maxc. \<lparr> data = Some [peak_keyword], error = None \<rparr>),
       select_latest_metrics = (\<lambda>i. \<lparr> data = None, error = Some ''connection timeout'' \<rparr>),
       select_latest_trend = (\<lambda>i. no_row),
       select_competition_index = (\<lambda>c. \<lparr> data = Some [], error = None \<rparr>) \<rparr>"

section \<open>Properties of binary64 rounding\<close>

lemma bit_length_bounds:
  "0 < n \<Longrightarrow> 2 ^ (bit_length n - 1) \<le> n \<and> n < 2 ^ bit_length n"
proof (induction n rule: bit_length.induct)
  case (1 n)
  show ?case
  proof (cases "n div 2 = 0")
    case True
    with "1.prems" have "n = 1" by presburger
    then show ?thesis by (simp add: bit_length.simps)
  next
    case False
    then have pos: "0 < n div 2" by simp
    from "1.prems" have n0: "n \<noteq> 0" by simp
    from "1.IH" [OF n0 pos]
    have lo: "2 ^ (bit_length (n div 2) - 1) \<le> n div 2"
      and hi: "n div 2 < 2 ^ bit_length (n div 2)" by simp_all
    have bl: "bit_length n = Suc (bit_length (n div 2))"
      using n0 by (subst bit_length.simps) simp
    have b1: "0 < bit_length (n div 2)"
      using pos by (subst bit_length.simps) simp
    then have e: "2 ^ bit_length (n div 2) = (2::nat) * 2 ^ (bit_length (n div 2) - 1)"
      by (cases "bit_length (n div 2)") simp_all
    have "2 * (n div 2) \<le> n" by simp
    with lo e have "2 ^ bit_length (n div 2) \<le> n" by linarith
    moreover have "n < 2 * (n div 2) + 2" by presburger
    with hi have "n < 2 * 2 ^ bit_length (n div 2)" by linarith
    ultimately show ?thesis by (simp add: bl)
  qed
qed

lemma two_powi_neg: "(2::real) powi (- int k) = 1 / 2 ^ k"
  by (simp add: power_int_minus_divide)

lemma ceiling_pred_bounds:
  fixes y :: real
  assumes "2 \<le> \<lceil>y\<rceil>"
  shows "real (nat (\<lceil>y\<rceil> - 1)) < y" and "y \<le> real (nat (\<lceil>y\<rceil> - 1)) + 1"
proof -
  have "real (nat (\<lceil>y\<rceil> - 1)) = of_int \<lceil>y\<rceil> - 1"
    using assms by simp
  then show "real (nat (\<lceil>y\<rceil> - 1)) < y" and "y \<le> real (nat (\<lceil>y\<rceil> - 1)) + 1"
    by linarith+
qed

lemma floor_nat_bounds:
  fixes a :: real
  assumes "1 \<le> a"
  shows "real (nat \<lfloor>a\<rfloor>) \<le> a" and "a < real (nat \<lfloor>a\<rfloor>) + 1"
proof -
  have "real (nat \<lfloor>a\<rfloor>) = of_int \<lfloor>a\<rfloor>"
    using assms by simp
  then show "real (nat \<lfloor>a\<rfloor>) \<le> a" and "a < real (nat \<lfloor>a\<rfloor>) + 1"
    by linarith+
qed

lemma reciprocal_le:
  fixes x :: real
  assumes "0 < x" and "1 / x \<le> 2 ^ k"
  shows "1 / 2 ^ k \<le> x"
  using assms by (simp add: field_simps)

lemma reciprocal_less:
  fixes x :: real
  assumes "0 < x" and "2 ^ k < 1 / x"
  shows "x < 1 / 2 ^ k"
  using assms by (simp add: field_simps)

lemma real_bit_length_bounds:
  assumes "0 < n"
  shows "(2::real) ^ (bit_length n - 1) \<le> real n" and "real n + 1 \<le> 2 ^ bit_length n"
proof -
  from bit_length_bounds [OF assms]
  have lo: "2 ^ (bit_length n - 1) \<le> n" and hi: "Suc n \<le> 2 ^ bit_length n"
    by simp_all
  from lo have "real (2 ^ (bit_length n - 1)) \<le> real n"
    by (rule iffD2 [OF of_nat_le_iff])
  then show "(2::real) ^ (bit_length n - 1) \<le> real n"
    by simp
  from hi have "real (Suc n) \<le> real (2 ^ bit_length n)"
    by (rule iffD2 [OF of_nat_le_iff])
  then show "real n + 1 \<le> 2 ^ bit_length n"
    by simp
qed

lemma bit_length_pos: "0 < n \<Longrightarrow> 0 < bit_length n"
  by (subst bit_length.simps) simp

lemma exponent_bounds:
  assumes "x \<noteq> 0"
  shows "2 powi exponent x \<le> \<bar>x\<bar>" and "\<bar>x\<bar> < 2 powi (exponent x + 1)"
proof -
  have "2 powi exponent x \<le> \<bar>x\<bar> \<and> \<bar>x\<bar> < 2 powi (exponent x + 1)"
  proof (cases "1 \<le> \<bar>x\<bar>")
    case True
    define n where "n = nat \<lfloor>\<bar>x\<bar>\<rfloor>"
    have n: "0 < n"
      using True by (simp add: n_def)
    have rn: "real n \<le> \<bar>x\<bar>" "\<bar>x\<bar> < real n + 1"
      unfolding n_def using floor_nat_bounds [OF True] by simp_all
    note pw = real_bit_length_bounds [OF n]
    have ex: "exponent x = int (bit_length n) - 1"
      using True by (simp add: exponent_def n_def)
    have e1: "exponent x = int (bit_length n - 1)"
      using bit_length_pos [OF n] ex by simp
    have e2: "exponent x + 1 = int (bit_length n)"
      using ex by simp
    have "(2::real) powi exponent x = 2 ^ (bit_length n - 1)"
      unfolding e1 by (rule power_int_of_nat)
    with pw(1) rn(1) have A: "2 powi exponent x \<le> \<bar>x\<bar>"
      by linarith
    have "(2::real) powi (exponent x + 1) = 2 ^ bit_length n"
      unfolding e2 by (rule power_int_of_nat)
    with pw(2) rn(2) have B: "\<bar>x\<bar> < 2 powi (exponent x + 1)"
      by linarith
    from A B show ?thesis ..
  next
    case False
    define y where "y = 1 / \<bar>x\<bar>"
    have x: "0 < \<bar>x\<bar>" "\<bar>x\<bar> < 1"
      using assms False by simp_all
    then have y: "1 < y"
      by (simp add: y_def)
    define m where "m = nat (\<lceil>y\<rceil> - 1)"
    have cy: "2 \<le> \<lceil>y\<rceil>"
      using y by linarith
    then have m: "0 < m"
      by (simp add: m_def)
    have rm: "real m < y" "y \<le> real m + 1"
      unfolding m_def using ceiling_pred_bounds [OF cy] by simp_all
    note pw = real_bit_length_bounds [OF m]
    have ex: "exponent x = - int (bit_length m)"
      using False by (simp add: exponent_def m_def y_def)
    have e3: "exponent x + 1 = - int (bit_length m - 1)"
      using bit_length_pos [OF m] ex by simp
    from pw(2) rm(2) have "1 / \<bar>x\<bar> \<le> 2 ^ bit_length m"
      unfolding y_def by linarith
    from reciprocal_le [OF x(1) this] have "1 / 2 ^ bit_length m \<le> \<bar>x\<bar>" .
    moreover have "(2::real) powi exponent x = 1 / 2 ^ bit_length m"
      unfolding ex by (rule two_powi_neg)
    ultimately have A: "2 powi exponent x \<le> \<bar>x\<bar>"
      by linarith
    from pw(1) rm(1) have "2 ^ (bit_length m - 1) < 1 / \<bar>x\<bar>"
      unfolding y_def by linarith
    from reciprocal_less [OF x(1) this] have "\<bar>x\<bar> < 1 / 2 ^ (bit_length m - 1)" .
    moreover have "(2::real) powi (exponent x + 1) = 1 / 2 ^ (bit_length m - 1)"
      unfolding e3 by (rule two_powi_neg)
    ultimately have B: "\<bar>x\<bar> < 2 powi (exponent x + 1)"
      by linarith
    from A B show ?thesis ..
  qed
  then show "2 powi exponent x \<le> \<bar>x\<bar>" and "\<bar>x\<bar> < 2 powi (exponent x + 1)"
    by simp_all
qed

lemma exponent_mono:
  assumes "x \<noteq> 0" and "\<bar>x\<bar> \<le> \<bar>y\<bar>"
  shows "exponent x \<le> exponent y"
proof (rule ccontr)
  assume "\<not> exponent x \<le> exponent y"
  then have "exponent y + 1 \<le> exponent x" by simp
  then have "(2::real) powi (exponent y + 1) \<le> 2 powi exponent x"
    by (intro power_int_increasing) simp_all
  moreover have "y \<noteq> 0" using assms by auto
  ultimately show False
    using exponent_bounds(1) [OF assms(1)] exponent_bounds(2) [of y] assms(2) by linarith
qed


lemma round_half_even_cases:
  "round_half_even x = \<lfloor>x\<rfloor> \<or> round_half_even x = \<lfloor>x\<rfloor> + 1"
  by (simp add: round_half_even_def Let_def)

lemma round_half_even_of_int: "round_half_even (of_int n) = n"
  by (simp add: round_half_even_def)

lemma round_half_even_mono:
  assumes "x \<le> y"
  shows "round_half_even x \<le> round_half_even y"
proof (cases "\<lfloor>x\<rfloor> = \<lfloor>y\<rfloor>")
  case True
  with assms show ?thesis
    by (auto simp add: round_half_even_def Let_def)
next
  case False
  with assms have "\<lfloor>x\<rfloor> + 1 \<le> \<lfloor>y\<rfloor>"
    using floor_mono [OF assms] by linarith
  moreover have "round_half_even x \<le> \<lfloor>x\<rfloor> + 1"
    using round_half_even_cases [of x] by linarith
  moreover have "\<lfloor>y\<rfloor> \<le> round_half_even y"
    using round_half_even_cases [of y] by linarith
  ultimately show ?thesis
    by linarith
qed

lemma round_half_even_minus: "round_half_even (- x) = - round_half_even x"
proof (cases "x = of_int \<lfloor>x\<rfloor>")
  case True
  then obtain n where x: "x = of_int n" ..
  have "round_half_even (- of_int n) = round_half_even (of_int (- n))"
    by simp
  then show ?thesis
    unfolding x by (simp only: round_half_even_of_int)
next
  case False
  then have fl: "\<lfloor>- x\<rfloor> = - \<lfloor>x\<rfloor> - 1"
    by (simp add: floor_minus ceiling_altdef)
  have d: "- x - of_int (- \<lfloor>x\<rfloor> - 1) = 1 - (x - of_int \<lfloor>x\<rfloor>)"
    by simp
  show ?thesis
    unfolding round_half_even_def Let_def fl d
    by (auto simp add: algebra_simps)
qed

lemma two_powi_split: "(2::real) powi (a + b) = 2 powi a * 2 powi b"
  by (rule power_int_add) simp

lemma ulp_pos: "0 < ulp x"
  by (simp add: ulp_def)

lemma exponent_minus: "exponent (- x) = exponent x"
  by (simp add: exponent_def)

lemma ulp_minus: "ulp (- x) = ulp x"
  by (simp add: ulp_def exponent_minus)

lemma double_minus: "double (- x) = - double x"
  by (simp add: double_def ulp_minus round_half_even_minus)

lemma double_zero: "double 0 = 0"
  by (simp add: double_def round_half_even_def)

lemma double_nonneg:
  assumes "0 \<le> x"
  shows "0 \<le> double x"
proof -
  have "0 \<le> x / ulp x"
    using assms ulp_pos [of x] by simp
  from round_half_even_mono [OF this] have "0 \<le> round_half_even (x / ulp x)"
    using round_half_even_of_int [of 0] by simp
  then show ?thesis
    using ulp_pos [of x] by (simp add: double_def)
qed

lemma double_upper:
  assumes "0 < x"
  shows "double x \<le> 2 powi (max (exponent x) (- 1022) + 1)"
proof -
  define e where "e = max (exponent x) (- 1022)"
  have u: "ulp x = 2 powi (e - 52)"
    by (simp add: ulp_def e_def)
  have "x < 2 powi (exponent x + 1)"
    using exponent_bounds(2) [of x] assms by simp
  also have "\<dots> \<le> 2 powi (e + 1)"
    by (intro power_int_increasing) (simp_all add: e_def)
  finally have "x < 2 powi (e + 1)" .
  moreover have eq: "e + 1 = 53 + (e - 52)"
    by simp
  have split: "(2::real) powi (e + 1) = 2 powi 53 * 2 powi (e - 52)"
    by (subst eq) (rule two_powi_split)
  ultimately have "x / ulp x \<le> 2 powi 53"
    using ulp_pos [of x] unfolding u split by (simp add: field_simps del: power_int_numeral)
  then have "x / ulp x \<le> of_int (2 ^ 53)"
    by simp
  from round_half_even_mono [OF this]
  have "round_half_even (x / ulp x) \<le> 2 ^ 53"
    by (simp only: round_half_even_of_int)
  then have "real_of_int (round_half_even (x / ulp x)) \<le> 2 powi 53"
    by (metis of_int_le_iff of_int_numeral of_int_power power_int_numeral)
  then have "double x \<le> 2 powi 53 * 2 powi (e - 52)"
    unfolding double_def u by (intro mult_right_mono) simp_all
  also have "\<dots> = 2 powi (e + 1)"
    by (rule split [symmetric])
  finally show ?thesis
    by (simp add: e_def)
qed

lemma double_lower:
  assumes "0 < y" and "- 1022 \<le> exponent y"
  shows "2 powi exponent y \<le> double y"
proof -
  define e where "e = exponent y"
  have u: "ulp y = 2 powi (e - 52)"
    using assms(2) by (simp add: ulp_def e_def max_def)
  have le: "2 powi e \<le> y"
    using exponent_bounds(1) [of y] assms(1) by (simp add: e_def)
  have eq: "e = 52 + (e - 52)"
    by simp
  have split: "(2::real) powi e = 2 powi 52 * 2 powi (e - 52)"
    by (subst eq) (rule two_powi_split)
  have "2 powi 52 \<le> y / ulp y"
    using le ulp_pos [of y] unfolding u split by (simp add: field_simps del: power_int_numeral)
  then have "of_int (2 ^ 52) \<le> y / ulp y"
    by simp
  from round_half_even_mono [OF this]
  have "2 ^ 52 \<le> round_half_even (y / ulp y)"
    by (simp only: round_half_even_of_int)
  then have "2 powi 52 \<le> real_of_int (round_half_even (y / ulp y))"
    by (metis of_int_le_iff of_int_numeral of_int_power power_int_numeral)
  then have "2 powi 52 * 2 powi (e - 52) \<le> double y"
    unfolding double_def u by (intro mult_right_mono) simp_all
  then show ?thesis
    unfolding e_def [symmetric] by (simp only: split [symmetric])
qed

lemma double_mono_pos:
  assumes "0 < x" and "x \<le> y"
  shows "double x \<le> double y"
proof -
  have y: "0 < y"
    using assms by simp
  have ee: "exponent x \<le> exponent y"
    using assms by (intro exponent_mono) simp_all
  show ?thesis
  proof (cases "max (exponent x) (- 1022) = max (exponent y) (- 1022)")
    case True
    then have u: "ulp x = ulp y"
      by (simp add: ulp_def)
    have "x / ulp y \<le> y / ulp y"
      using assms(2) ulp_pos [of y] by (simp add: divide_right_mono)
    from round_half_even_mono [OF this] show ?thesis
      unfolding double_def u using ulp_pos [of y] by (simp add: mult_right_mono)
  next
    case False
    with ee have lt: "max (exponent x) (- 1022) + 1 \<le> exponent y" and big: "- 1022 \<le> exponent y"
      by (simp_all add: max_def split: if_splits)
    have "double x \<le> 2 powi (max (exponent x) (- 1022) + 1)"
      by (rule double_upper [OF assms(1)])
    also have "\<dots> \<le> 2 powi exponent y"
      using lt by (intro power_int_increasing) simp_all
    also have "\<dots> \<le> double y"
      by (rule double_lower [OF y big])
    finally show ?thesis .
  qed
qed

lemma double_mono:
  assumes "x \<le> y"
  shows "double x \<le> double y"
proof -
  consider "0 < x" | "x \<le> 0" "0 \<le> y" | "y < 0"
    by linarith
  then show ?thesis
  proof cases
    case 1
    then show ?thesis
      by (rule double_mono_pos [OF _ assms])
  next
    case 2
    have "double x \<le> 0"
      using double_nonneg [of "- x"] 2(1) by (simp add: double_minus)
    moreover have "0 \<le> double y"
      by (rule double_nonneg [OF 2(2)])
    ultimately show ?thesis
      by linarith
  next
    case 3
    then have "0 < - y" and "- y \<le> - x"
      using assms by simp_all
    from double_mono_pos [OF this] show ?thesis
      by (simp add: double_minus)
  qed
qed

text \<open>The operators are monotone where the exact operations are.\<close>

lemma js_add_mono: "a \<le> a' \<Longrightarrow> b \<le> b' \<Longrightarrow> js_add a b \<le> js_add a' b'"
  unfolding js_add_def by (intro double_mono add_mono)

lemma js_sub_mono: "a \<le> a' \<Longrightarrow> b' \<le> b \<Longrightarrow> js_sub a b \<le> js_sub a' b'"
  unfolding js_sub_def by (intro double_mono diff_mono)

lemma js_mul_mono: "a \<le> a' \<Longrightarrow> 0 \<le> c \<Longrightarrow> js_mul a c \<le> js_mul a' c"
  unfolding js_mul_def by (intro double_mono mult_right_mono)

lemma js_div_mono: "a \<le> a' \<Longrightarrow> 0 \<le> c \<Longrightarrow> js_div a c \<le> js_div a' c"
  unfolding js_div_def by (intro double_mono divide_right_mono)

lemma js_round_mono: "x \<le> y \<Longrightarrow> js_round x \<le> js_round y"
  unfolding js_round_def by (intro floor_mono) simp

text \<open>Evaluation of the rounding and of the operators at numerals.\<close>

lemmas binary64_eval =
  double_def ulp_def exponent_def round_half_even_def bit_length.simps
  js_add_def js_sub_def js_mul_def js_div_def

lemma double_small_integers: "double 50 = 50" "double 100 = 100"
  by (simp_all add: binary64_eval)

lemma double_le_100: "x \<le> 100 \<Longrightarrow> double x \<le> 100"
  using double_mono [of x 100] by (simp add: double_small_integers)

lemma double_literals_nonneg:
  "0 \<le> double 0.2" "0 \<le> double 0.3" "0 \<le> double 0.4" "0 \<le> double 1.7"
  by (simp_all add: double_nonneg)

section \<open>Properties of ScoringEngine\<close>

subsection \<open>Trend velocity\<close>

lemma calculateTrendVelocity_range:
  "- 100 \<le> calculateTrendVelocity a b \<and> calculateTrendVelocity a b \<le> 100"
proof (cases "double a > double b")
  case True
  then have "0 \<le> js_sub (double a) (double b)"
    unfolding js_sub_def by (intro double_nonneg) simp
  then have "0 \<le> js_mul (js_sub (double a) (double b)) 2"
    unfolding js_mul_def by (intro double_nonneg) simp
  with True show ?thesis
    by (simp add: calculateTrendVelocity_def)
next
  case False
  then have "0 \<le> js_sub (double b) (double a)"
    unfolding js_sub_def by (intro double_nonneg) simp
  moreover have "js_sub (double b) (double a) = - js_sub (double a) (double b)"
    unfolding js_sub_def using double_minus [of "double a - double b"] by simp
  ultimately have "0 \<le> double (- (js_sub (double a) (double b) * 2))"
    by (intro double_nonneg) simp
  then have "js_mul (js_sub (double a) (double b)) 2 \<le> 0"
    unfolding js_mul_def by (simp add: double_minus)
  with False show ?thesis
    by (simp add: calculateTrendVelocity_def)
qed

text \<open>
  C6. In binary64 arithmetic, \<^verbatim>\<open>calculateTrendVelocity(week, month)\<close> is
  \<open>min 100 ((week - month) * 2)\<close> when \<open>week > month\<close> and \<open>max (-100) ((week - month) * 2)\<close>
  otherwise: the cap stands on the accelerating branch only and the floor on the other
  branch only. At \<open>(10, 5)\<close> it is \<open>10\<close>, at \<open>(5, 10)\<close> it is \<open>-10\<close>, and at \<open>(60, 0)\<close> it
  is \<open>100\<close>, not \<open>120\<close>.
\<close>

theorem calculateTrendVelocity_branches:
  "(double week > double month \<longrightarrow>
      calculateTrendVelocity week month =
        min 100 (js_mul (js_sub (double week) (double month)) 2))
   \<and> (\<not> double week > double month \<longrightarrow>
        calculateTrendVelocity week month =
          max (- 100) (js_mul (js_sub (double week) (double month)) 2))
   \<and> calculateTrendVelocity 10 5 = 10
   \<and> calculateTrendVelocity 5 10 = - 10
   \<and> calculateTrendVelocity 60 0 = 100
   \<and> calculateTrendVelocity 60 0 \<noteq> 120"
proof (intro conjI impI)
  show "calculateTrendVelocity 10 5 = 10"
    by (simp add: calculateTrendVelocity_def binary64_eval)
  show "calculateTrendVelocity 5 10 = - 10"
    by (simp add: calculateTrendVelocity_def binary64_eval)
  show "calculateTrendVelocity 60 0 = 100"
    by (simp add: calculateTrendVelocity_def binary64_eval)
  then show "calculateTrendVelocity 60 0 \<noteq> 120"
    by simp
qed (simp_all add: calculateTrendVelocity_def)

theorem calculateTrendVelocity_branches_witness:
  "double 60 > double 0
   \<and> calculateTrendVelocity 60 0 = min 100 (js_mul (js_sub (double 60) (double 0)) 2)
   \<and> \<not> double 5 > double 10
   \<and> calculateTrendVelocity 5 10 = max (- 100) (js_mul (js_sub (double 5) (double 10)) 2)"
proof -
  have a: "double 60 > double 0" and b: "\<not> double 5 > double 10"
    by (simp_all add: binary64_eval)
  show ?thesis
    using a b calculateTrendVelocity_branches [where week = 60 and month = 0]
      calculateTrendVelocity_branches [where week = 5 and month = 10]
    by blast
qed

subsection \<open>The opportunity score\<close>

lemma opportunity_score_clamp:
  "opportunity_score (calculateOpportunityScore k metrics trend) =
     min 100 (max 0 (opportunityScore k metrics trend))"
  by (simp add: calculateOpportunityScore_def Let_def)

lemma tier_of_score:
  "potential_revenue_tier (calculateOpportunityScore k metrics trend) =
     categorizeRevenueTier (opportunityScore k metrics trend)
       (search_volume k) (competition_index k)"
  by (simp add: calculateOpportunityScore_def Let_def)

text \<open>
  C1. For every keyword with a non-negative search volume and a competition index
  in \<open>[0, 100]\<close>, every metrics snapshot (or none) with saturation in \<open>[0, 100]\<close> and every
  trend snapshot (or none) with velocity in \<open>[-100, 100]\<close>, the \<open>opportunity_score\<close> of
  the record that \<^verbatim>\<open>calculateOpportunityScore\<close> returns is an integer (by its type) between
  0 and 100.
\<close>

theorem opportunity_score_in_range:
  assumes "0 \<le> search_volume k" and "0 \<le> competition_index k" and "competition_index k \<le> 100"
    and "\<forall>ms. metrics = Some ms \<longrightarrow> 0 \<le> niche_saturation ms \<and> niche_saturation ms \<le> 100"
    and "\<forall>ts. trend = Some ts \<longrightarrow> - 100 \<le> velocity_score ts \<and> velocity_score ts \<le> 100"
  shows "0 \<le> opportunity_score (calculateOpportunityScore k metrics trend)
         \<and> opportunity_score (calculateOpportunityScore k metrics trend) \<le> 100"
  by (simp add: opportunity_score_clamp)

theorem opportunity_score_in_range_witness:
  "0 \<le> search_volume best_keyword
   \<and> 0 \<le> competition_index best_keyword \<and> competition_index best_keyword \<le> 100
   \<and> 0 \<le> niche_saturation best_metrics \<and> niche_saturation best_metrics \<le> 100
   \<and> - 100 \<le> velocity_score best_trend \<and> velocity_score best_trend \<le> 100
   \<and> 0 \<le> opportunity_score
            (calculateOpportunityScore best_keyword (Some best_metrics) (Some best_trend))
   \<and> opportunity_score
        (calculateOpportunityScore best_keyword (Some best_metrics) (Some best_trend)) \<le> 100"
  using opportunity_score_in_range [of best_keyword "Some best_metrics" "Some best_trend"]
  by (simp add: best_keyword_def best_metrics_def best_trend_def)

subsection \<open>The bound on the score before the clamp\<close>

lemma weighted_sum_mono:
  assumes "a \<le> 100" and "c \<le> 100" and "w \<le> 100" and "n \<le> 100"
  shows "js_div
           (js_add
              (js_add (js_add (js_mul a (double 0.2)) (js_mul c (double 0.4)))
                 (js_mul w (double 0.3)))
              (js_mul n (double 0.2)))
           (double 1.7)
         \<le> js_div
              (js_add
                 (js_add (js_add (js_mul 100 (double 0.2)) (js_mul 100 (double 0.4)))
                    (js_mul 100 (double 0.3)))
                 (js_mul 100 (double 0.2)))
              (double 1.7)"
  by (intro js_div_mono js_add_mono js_mul_mono assms double_literals_nonneg)

lemma weighted_sum_max:
  "js_round
     (js_div
        (js_add
           (js_add (js_add (js_mul 100 (double 0.2)) (js_mul 100 (double 0.4)))
              (js_mul 100 (double 0.3)))
           (js_mul 100 (double 0.2)))
        (double 1.7)) = 65"
  by (simp add: js_round_def binary64_eval)

lemma opportunityScore_le_65:
  assumes "0 \<le> competition_index k"
    and "\<forall>ms. metrics = Some ms \<longrightarrow> 0 \<le> niche_saturation ms"
    and "\<forall>ts. trend = Some ts \<longrightarrow> velocity_score ts \<le> 100"
  shows "opportunityScore k metrics trend \<le> 65"
proof -
  define v where "v = (case trend of None \<Rightarrow> 0 | Some ts \<Rightarrow> double (velocity_score ts))"
  define n where "n = (case metrics of None \<Rightarrow> 50 | Some ms \<Rightarrow> double (niche_saturation ms))"
  have v: "max 0 v \<le> 100"
    using assms(3) by (auto simp: v_def double_le_100 split: option.splits)
  have "0 \<le> n"
    using assms(2) by (auto simp: n_def double_nonneg split: option.splits)
  then have n: "js_sub 100 n \<le> 100"
    unfolding js_sub_def by (intro double_le_100) simp
  have vol: "min (js_div (real_of_int (search_volume k)) 100) 100 \<le> 100"
    by simp
  have c: "js_sub 100 (real_of_int (competition_index k)) \<le> 100"
    unfolding js_sub_def using assms(1) by (intro double_le_100) simp
  have "opportunityScore k metrics trend =
      js_round
        (js_div
           (js_add
              (js_add
                 (js_add
                    (js_mul (min (js_div (real_of_int (search_volume k)) 100) 100) (double 0.2))
                    (js_mul (js_sub 100 (real_of_int (competition_index k))) (double 0.4)))
                 (js_mul (max 0 v) (double 0.3)))
              (js_mul (js_sub 100 n) (double 0.2)))
           (double 1.7))"
    by (simp add: opportunityScore_def Let_def v_def n_def)
  also have "\<dots> \<le> 65"
    using js_round_mono [OF weighted_sum_mono [OF vol c v n]]
    by (simp only: weighted_sum_max)
  finally show ?thesis .
qed

text \<open>The bound is reached: the best valid input scores 65.\<close>

lemma opportunityScore_best:
  "opportunityScore best_keyword (Some best_metrics) (Some best_trend) = 65"
  unfolding opportunityScore_def Let_def best_keyword_def best_metrics_def best_trend_def
  by (simp add: js_round_def binary64_eval)

text \<open>
  A tie of the exact sum that binary64 arithmetic decides downwards: volume 25,
  competition 0 and saturation 41 give \<open>51.85 / 1.7 = 30.5\<close> over the reals and 30 in
  JavaScript.
\<close>

lemma opportunityScore_rounding_tie:
  "opportunityScore (kw ''tie'' 25 0)
     (Some \<lparr> km_id = ''m'', km_keyword_id = ''tie'', click_volume = 0,
              conversion_potential = 0, niche_saturation = 41, commercial_intent = 0,
              recorded_at = ''2026-01-14'' \<rparr>) None = 30"
  unfolding opportunityScore_def Let_def kw_def
  by (simp add: js_round_def binary64_eval)

text \<open>
  C10. Under the same ranges as in C1, the rounded score before the clamp is at most 65
  (the weighted sum is at most \<open>(20 + 40 + 30 + 20) / 1.7\<close>), so the revenue tier of the
  returned record is neither \<open>high\<close> nor \<open>very_high\<close>.
\<close>

theorem valid_inputs_score_at_most_65:
  assumes "0 \<le> search_volume k" and "0 \<le> competition_index k" and "competition_index k \<le> 100"
    and "\<forall>ms. metrics = Some ms \<longrightarrow> 0 \<le> niche_saturation ms \<and> niche_saturation ms \<le> 100"
    and "\<forall>ts. trend = Some ts \<longrightarrow> - 100 \<le> velocity_score ts \<and> velocity_score ts \<le> 100"
  shows "opportunityScore k metrics trend \<le> 65
         \<and> potential_revenue_tier (calculateOpportunityScore k metrics trend) \<noteq> High
         \<and> potential_revenue_tier (calculateOpportunityScore k metrics trend) \<noteq> Very_high"
proof -
  have "opportunityScore k metrics trend \<le> 65"
    using assms by (intro opportunityScore_le_65) auto
  then show ?thesis
    by (simp add: tier_of_score categorizeRevenueTier_def)
qed

theorem valid_inputs_score_at_most_65_witness:
  "0 \<le> search_volume best_keyword
   \<and> 0 \<le> competition_index best_keyword \<and> competition_index best_keyword \<le> 100
   \<and> 0 \<le> niche_saturation best_metrics \<and> niche_saturation best_metrics \<le> 100
   \<and> - 100 \<le> velocity_score best_trend \<and> velocity_score best_trend \<le> 100
   \<and> opportunityScore best_keyword (Some best_metrics) (Some best_trend) \<le> 65
   \<and> potential_revenue_tier
        (calculateOpportunityScore best_keyword (Some best_metrics) (Some best_trend)) \<noteq> High
   \<and> potential_revenue_tier
        (calculateOpportunityScore best_keyword (Some best_metrics) (Some best_trend))
        \<noteq> Very_high"
  using valid_inputs_score_at_most_65 [of best_keyword "Some best_metrics" "Some best_trend"]
  by (simp add: best_keyword_def best_metrics_def best_trend_def)

subsection \<open>Revenue tiers\<close>

text \<open>
  C3. The tier of a scoring call is \<^verbatim>\<open>categorizeRevenueTier\<close> of the score before the
  clamp, the search volume and the competition index. The comparisons are strict and the
  first match wins: a score above 80 with a volume above 1000 and a competition below 30
  is \<open>very_high\<close>; with the volume 1000 the same score and competition give \<open>high\<close>, and
  no score gives \<open>very_high\<close> at that volume; the score 80 is not \<open>very_high\<close>, the score
  70 is \<open>medium\<close> and the score 50 is \<open>low\<close>.
\<close>

theorem revenue_tier_thresholds:
  "potential_revenue_tier (calculateOpportunityScore k metrics trend) =
     categorizeRevenueTier (opportunityScore k metrics trend)
       (search_volume k) (competition_index k)
   \<and> (score > 80 \<and> sv > 1000 \<and> ci < 30 \<longrightarrow> categorizeRevenueTier score sv ci = Very_high)
   \<and> (score > 80 \<and> ci < 30 \<longrightarrow> categorizeRevenueTier score 1000 ci = High)
   \<and> categorizeRevenueTier score 1000 ci \<noteq> Very_high
   \<and> categorizeRevenueTier 80 sv ci \<noteq> Very_high
   \<and> categorizeRevenueTier 70 sv ci = Medium
   \<and> categorizeRevenueTier 50 sv ci = Low"
  by (simp add: tier_of_score categorizeRevenueTier_def)

theorem revenue_tier_thresholds_witness:
  "(81::int) > 80 \<and> (1001::int) > 1000 \<and> (29::int) < 30
   \<and> categorizeRevenueTier 81 1001 29 = Very_high
   \<and> categorizeRevenueTier 81 1000 29 = High
   \<and> categorizeRevenueTier 80 1001 29 \<noteq> Very_high"
  using revenue_tier_thresholds [where score = 81 and sv = 1001 and ci = 29]
  by simp

subsection \<open>The reason text\<close>

text \<open>
  C2, as the code has it. For a keyword with search volume 600, competition index 20
  and status \<open>peak\<close>, scored with no metrics and no trend, the reason is the three phrases
  joined by \<^verbatim>\<open>'. '\<close>: \<^verbatim>\<open>join\<close> puts nothing after the last phrase, so the text ends
  without a period.
\<close>

theorem reason_of_peak_keyword:
  assumes "search_volume k = 600" and "competition_index k = 20" and "trend_status k = Peak"
  shows "reason (calculateOpportunityScore k None None) =
    ''High search volume (600 searches). Low competition. Currently at peak popularity''"
  using assms
  by (simp add: calculateOpportunityScore_def Let_def generateReason_def number_text_def
      decimal.simps digit_char_def)

theorem reason_of_peak_keyword_witness:
  "search_volume peak_keyword = 600 \<and> competition_index peak_keyword = 20
   \<and> trend_status peak_keyword = Peak
   \<and> reason (calculateOpportunityScore peak_keyword None None) =
       ''High search volume (600 searches). Low competition. Currently at peak popularity''"
  using reason_of_peak_keyword [of peak_keyword]
  by (simp add: peak_keyword_def)

text \<open>
  C2 as the spec states it, with the trailing period, fails at that keyword.
\<close>

theorem reason_trailing_period_counterexample:
  "reason (calculateOpportunityScore peak_keyword None None) \<noteq>
    ''High search volume (600 searches). Low competition. Currently at peak popularity.''"
  by (simp add: calculateOpportunityScore_def Let_def generateReason_def number_text_def
      decimal.simps digit_char_def peak_keyword_def)

subsection \<open>The SEO score\<close>

lemma seo_sum_mono:
  assumes "b \<le> 50" and "c \<le> 100" and "p \<le> 100"
  shows "js_add (js_add b (js_mul c (double 0.3))) (js_mul p (double 0.2))
         \<le> js_add (js_add 50 (js_mul 100 (double 0.3))) (js_mul 100 (double 0.2))"
  by (intro js_add_mono js_mul_mono assms double_literals_nonneg)

lemma seo_sum_max:
  "js_round (js_add (js_add 50 (js_mul 100 (double 0.3))) (js_mul 100 (double 0.2))) = 100"
  by (simp add: js_round_def binary64_eval)

lemma calculateSEOScore_le_100:
  assumes "0 \<le> competition_index k"
    and "\<forall>ms. metrics = Some ms \<longrightarrow> conversion_potential ms \<le> 100"
  shows "calculateSEOScore k metrics \<le> 100"
proof -
  define p where
    "p = (case metrics of None \<Rightarrow> 50 | Some ms \<Rightarrow> double (conversion_potential ms))"
  have p: "p \<le> 100"
    using assms(2) by (auto simp: p_def double_le_100 split: option.splits)
  have b: "min (js_div (real_of_int (search_volume k)) 20) 50 \<le> 50"
    by simp
  have c: "js_sub 100 (real_of_int (competition_index k)) \<le> 100"
    unfolding js_sub_def using assms(1) by (intro double_le_100) simp
  have "calculateSEOScore k metrics =
      js_round
        (js_add
           (js_add (min (js_div (real_of_int (search_volume k)) 20) 50)
              (js_mul (js_sub 100 (real_of_int (competition_index k))) (double 0.3)))
           (js_mul p (double 0.2)))"
    by (simp add: calculateSEOScore_def Let_def p_def)
  also have "\<dots> \<le> 100"
    using js_round_mono [OF seo_sum_mono [OF b c p]]
    by (simp only: seo_sum_max)
  finally show ?thesis .
qed

lemma calculateSEOScore_best: "calculateSEOScore best_keyword (Some best_metrics) = 100"
  unfolding calculateSEOScore_def Let_def best_keyword_def best_metrics_def
  by (simp add: js_round_def binary64_eval)

text \<open>
  From a volume of 1000 on the volume term is 50.
\<close>

lemma baseScore_capped:
  assumes "1000 \<le> v"
  shows "min (js_div (real_of_int v) 20) 50 = 50"
proof -
  have "50 \<le> real_of_int v / 20"
    using assms by simp
  from double_mono [OF this] have "50 \<le> js_div (real_of_int v) 20"
    by (simp add: js_div_def double_small_integers)
  then show ?thesis
    by simp
qed

text \<open>
  A tie of the exact sum that binary64 arithmetic decides downwards: volume 8 and
  competition 33 without metrics give \<open>0.4 + 20.1 + 10 = 30.5\<close> over the reals and 30
  in JavaScript.
\<close>

lemma calculateSEOScore_rounding_tie: "calculateSEOScore (kw ''tie'' 8 33) None = 30"
  unfolding calculateSEOScore_def Let_def kw_def
  by (simp add: js_round_def binary64_eval)

text \<open>
  C9, as the code has it. In binary64 arithmetic, \<^verbatim>\<open>calculateSEOScore\<close> is the rounded
  sum of \<open>min (volume / 20) 50\<close>, \<open>(100 - competition) * 0.3\<close> and \<open>conversion * 0.2\<close>
  (conversion 50 without metrics), with no clamp. The volume term is capped at 50: from a
  volume of 1000 on the score does not depend on the volume, and with a competition
  index in \<open>[0, 100]\<close> and a conversion potential in \<open>[0, 100]\<close> the score is at most 100.
  Only an input outside these ranges shows that there is no clamp: a competition index
  of \<open>-100\<close> gives 120.
\<close>

theorem calculateSEOScore_formula_and_bound:
  "calculateSEOScore k metrics =
     js_round
       (js_add
          (js_add (min (js_div (real_of_int (search_volume k)) 20) 50)
             (js_mul (js_sub 100 (real_of_int (competition_index k))) (double 0.3)))
          (js_mul (case metrics of None \<Rightarrow> 50 | Some ms \<Rightarrow> double (conversion_potential ms))
             (double 0.2)))
   \<and> (1000 \<le> search_volume k \<longrightarrow>
        calculateSEOScore k metrics = calculateSEOScore (k\<lparr>search_volume := 1000\<rparr>) metrics)
   \<and> (0 \<le> competition_index k \<and> competition_index k \<le> 100
        \<and> (\<forall>ms. metrics = Some ms \<longrightarrow>
              0 \<le> conversion_potential ms \<and> conversion_potential ms \<le> 100)
        \<longrightarrow> calculateSEOScore k metrics \<le> 100)
   \<and> calculateSEOScore (kw ''out of range'' 2000 (- 100)) None = 120"
proof (intro conjI impI)
  show "calculateSEOScore k metrics =
     js_round
       (js_add
          (js_add (min (js_div (real_of_int (search_volume k)) 20) 50)
             (js_mul (js_sub 100 (real_of_int (competition_index k))) (double 0.3)))
          (js_mul (case metrics of None \<Rightarrow> 50 | Some ms \<Rightarrow> double (conversion_potential ms))
             (double 0.2)))"
    by (simp add: calculateSEOScore_def Let_def)
next
  assume "1000 \<le> search_volume k"
  from baseScore_capped [OF this] baseScore_capped [of 1000]
  show "calculateSEOScore k metrics = calculateSEOScore (k\<lparr>search_volume := 1000\<rparr>) metrics"
    by (simp add: calculateSEOScore_def Let_def)
next
  assume "0 \<le> competition_index k \<and> competition_index k \<le> 100
        \<and> (\<forall>ms. metrics = Some ms \<longrightarrow>
              0 \<le> conversion_potential ms \<and> conversion_potential ms \<le> 100)"
  then show "calculateSEOScore k metrics \<le> 100"
    by (intro calculateSEOScore_le_100) auto
next
  show "calculateSEOScore (kw ''out of range'' 2000 (- 100)) None = 120"
    unfolding calculateSEOScore_def Let_def kw_def
    by (simp add: js_round_def binary64_eval)
qed

theorem calculateSEOScore_formula_and_bound_witness:
  "1000 \<le> search_volume best_keyword
   \<and> 0 \<le> competition_index best_keyword \<and> competition_index best_keyword \<le> 100
   \<and> 0 \<le> conversion_potential best_metrics \<and> conversion_potential best_metrics \<le> 100
   \<and> calculateSEOScore best_keyword (Some best_metrics) =
       calculateSEOScore (best_keyword\<lparr>search_volume := 1000\<rparr>) (Some best_metrics)
   \<and> calculateSEOScore best_keyword (Some best_metrics) \<le> 100"
  using calculateSEOScore_formula_and_bound [of best_keyword "Some best_metrics"]
  by (simp add: best_keyword_def best_metrics_def)

text \<open>
  C9 as the spec states it fails: no keyword and metrics within the ranges of the data
  model, whatever the search volume, have an SEO score above 100.
\<close>

theorem calculateSEOScore_above_100_counterexample:
  "\<not> (\<exists>k metrics.
        0 \<le> search_volume k \<and> 0 \<le> competition_index k \<and> competition_index k \<le> 100
        \<and> (\<forall>ms. metrics = Some ms \<longrightarrow>
              0 \<le> conversion_potential ms \<and> conversion_potential ms \<le> 100)
        \<and> calculateSEOScore k metrics > 100)"
proof
  assume "\<exists>k metrics.
        0 \<le> search_volume k \<and> 0 \<le> competition_index k \<and> competition_index k \<le> 100
        \<and> (\<forall>ms. metrics = Some ms \<longrightarrow>
              0 \<le> conversion_potential ms \<and> conversion_potential ms \<le> 100)
        \<and> calculateSEOScore k metrics > 100"
  then obtain k metrics where c: "0 \<le> competition_index k"
    and p: "\<forall>ms. metrics = Some ms \<longrightarrow> conversion_potential ms \<le> 100"
    and s: "calculateSEOScore k metrics > 100"
    by blast
  from calculateSEOScore_le_100 [OF c p] s show False
    by simp
qed

section \<open>Properties of KeywordAnalyzer\<close>

subsection \<open>The sort\<close>

lemma js_insert_insort_key:
  assumes "\<And>x y. compare x y \<le> 0 \<longleftrightarrow> f x \<le> f y"
  shows "js_insert compare x ys = insort_key f x ys"
  by (induction ys) (simp_all add: assms)

lemma js_sort_sort_key:
  assumes "\<And>x y. compare x y \<le> 0 \<longleftrightarrow> f x \<le> f y"
  shows "js_sort compare xs = sort_key f xs"
  by (induction xs) (simp_all add: js_sort_def sort_key_def js_insert_insort_key [OF assms])

lemma js_sort_ascending: "js_sort (\<lambda>a b. a - b) (rows :: int list) = sort rows"
  by (rule js_sort_sort_key) simp

lemma js_sort_by_score:
  "js_sort (\<lambda>a b. opportunity_score b - opportunity_score a) xs =
     sort_key (\<lambda>a. - opportunity_score a) xs"
  by (rule js_sort_sort_key) simp

lemma score_keywords_map:
  "score_keywords db acc ks =
     acc @ map (\<lambda>k. calculateOpportunityScore k (data (select_latest_metrics db (kw_id k)))
                       (data (select_latest_trend db (kw_id k)))) ks"
  by (induction ks arbitrary: acc) (simp_all add: Let_def)

lemma sorted_by_score_desc:
  "sorted_wrt (\<lambda>a b. opportunity_score a \<ge> opportunity_score b)
     (sort_key (\<lambda>a. - opportunity_score a) xs)"
proof -
  have "sorted (map (\<lambda>a. - opportunity_score a) (sort_key (\<lambda>a. - opportunity_score a) xs))"
    by (rule sorted_sort_key)
  then show ?thesis
    by (simp add: sorted_map)
qed

lemma stable_by_score_desc:
  "filter (\<lambda>a. opportunity_score a = s) (sort_key (\<lambda>a. - opportunity_score a) xs) =
     filter (\<lambda>a. opportunity_score a = s) xs"
  using sort_key_stable [of "\<lambda>a. - opportunity_score a" "- s" xs] by simp


subsection \<open>findOpportunities\<close>

text \<open>The operation fails exactly when the read of the candidates fails.\<close>

lemma findOpportunities_fails_iff:
  "(\<exists>e. findOpportunities db minv maxc = Inl e) \<longleftrightarrow>
     data (select_keywords db minv maxc) = None \<or> error (select_keywords db minv maxc) \<noteq> None"
  by (auto simp add: findOpportunities_def Let_def split: option.splits)

lemma scores_of_tie_db:
  "opportunityScore (kw ''a'' 900 30) None None = 23"
  "opportunityScore (kw ''b'' 800 10) None None = 28"
  "opportunityScore (kw ''c'' 700 30) None None = 23"
  unfolding opportunityScore_def Let_def kw_def
  by (simp_all add: js_round_def binary64_eval)

text \<open>The three candidates of \<open>tie_db\<close>: the best first, the two equal ones as they came.\<close>

lemma findOpportunities_tie_db:
  "findOpportunities tie_db 100 50 =
     Inr [calculateOpportunityScore (kw ''b'' 800 10) None None,
          calculateOpportunityScore (kw ''a'' 900 30) None None,
          calculateOpportunityScore (kw ''c'' 700 30) None None]"
  by (simp add: findOpportunities_def tie_db_def no_row_def js_sort_def
      opportunity_score_clamp scores_of_tie_db)

text \<open>
  C8. When the read of the candidates succeeds, \<^verbatim>\<open>findOpportunities\<close> returns a list
  in non-increasing order of \<open>opportunity_score\<close>, and for every score the results with that
  score are the scored candidates with that score, in the order of the candidates.
\<close>

theorem findOpportunities_sorted_stable:
  assumes "select_keywords db minv maxc = \<lparr> data = Some ks, error = None \<rparr>"
  shows "\<exists>res. findOpportunities db minv maxc = Inr res
           \<and> sorted_wrt (\<lambda>a b. opportunity_score a \<ge> opportunity_score b) res
           \<and> (\<forall>s. filter (\<lambda>a. opportunity_score a = s) res =
                    filter (\<lambda>a. opportunity_score a = s)
                      (map (\<lambda>k. calculateOpportunityScore k
                                  (data (select_latest_metrics db (kw_id k)))
                                  (data (select_latest_trend db (kw_id k)))) ks))"
proof -
  let ?scored = "map (\<lambda>k. calculateOpportunityScore k
                             (data (select_latest_metrics db (kw_id k)))
                             (data (select_latest_trend db (kw_id k)))) ks"
  have "findOpportunities db minv maxc = Inr (sort_key (\<lambda>a. - opportunity_score a) ?scored)"
    using assms by (simp add: findOpportunities_def js_sort_by_score score_keywords_map)
  then show ?thesis
    by (simp add: sorted_by_score_desc stable_by_score_desc)
qed

theorem findOpportunities_sorted_stable_witness:
  "select_keywords tie_db 100 50 =
     \<lparr> data = Some [kw ''a'' 900 30, kw ''b'' 800 10, kw ''c'' 700 30], error = None \<rparr>
   \<and> (\<exists>res. findOpportunities tie_db 100 50 = Inr res
           \<and> sorted_wrt (\<lambda>a b. opportunity_score a \<ge> opportunity_score b) res
           \<and> (\<forall>s. filter (\<lambda>a. opportunity_score a = s) res =
                    filter (\<lambda>a. opportunity_score a = s)
                      (map (\<lambda>k. calculateOpportunityScore k
                                  (data (select_latest_metrics tie_db (kw_id k)))
                                  (data (select_latest_trend tie_db (kw_id k))))
                         [kw ''a'' 900 30, kw ''b'' 800 10, kw ''c'' 700 30])))"
proof -
  have h: "select_keywords tie_db 100 50 =
     \<lparr> data = Some [kw ''a'' 900 30, kw ''b'' 800 10, kw ''c'' 700 30], error = None \<rparr>"
    by (simp add: tie_db_def)
  show ?thesis
    using h findOpportunities_sorted_stable [OF h] by blast
qed

text \<open>
  C5 fails on the reads of the loop. With \<open>failing_metrics_db\<close> the read of the
  candidates succeeds and the read of the metrics of its one candidate fails with an
  error; \<^verbatim>\<open>findOpportunities\<close> still returns a result, the candidate scored as if it had
  no metrics.
\<close>

theorem findOpportunities_ignores_metrics_failure:
  "error (select_latest_metrics failing_metrics_db (kw_id peak_keyword)) =
     Some ''connection timeout''
   \<and> findOpportunities failing_metrics_db 100 50 =
       Inr [calculateOpportunityScore peak_keyword None None]"
  by (simp add: findOpportunities_def failing_metrics_db_def no_row_def js_sort_def)

subsection \<open>getCompetitionAnalysis\<close>

text \<open>The operation fails exactly when the read of the indices fails.\<close>

lemma getCompetitionAnalysis_fails_iff:
  "(\<exists>e. getCompetitionAnalysis db c = Inl e) \<longleftrightarrow>
     data (select_competition_index db c) = None
     \<or> error (select_competition_index db c) \<noteq> None"
  by (auto simp add: getCompetitionAnalysis_def Let_def split: option.splits)

text \<open>
  Index \<open>length rows div 2\<close> is the middle position for an odd number of indices and the
  upper of the two middle positions for an even number: the lower median is never
  larger, and it is the same element exactly when the positions agree.
\<close>

lemma lower_median_le_middle:
  assumes "rows \<noteq> []"
  shows "lower_median rows \<le> sort rows ! (length rows div 2)"
proof -
  have "length rows div 2 < length (sort rows)"
    using assms by simp
  then show ?thesis
    unfolding lower_median_def by (intro sorted_nth_mono) simp_all
qed

lemma lower_median_odd:
  assumes "odd (length rows)"
  shows "lower_median rows = sort rows ! (length rows div 2)"
proof -
  from assms obtain m where "length rows = 2 * m + 1"
    by (elim oddE)
  then have "(length rows - 1) div 2 = length rows div 2"
    by simp
  then show ?thesis
    by (simp add: lower_median_def)
qed

lemma middle_elements_example:
  "lower_median [10, 20, 30, 40] = 20
   \<and> sort [10, 20, 30, 40 :: int] ! (length [10, 20, 30, 40 :: int] div 2) = 30"
  by (simp add: lower_median_def)

text \<open>
  C7, as the code has it. For a non-empty sequence of indices read without error, the
  median reported is the element at index \<open>length rows div 2\<close> of the sequence in
  ascending order, one of its elements and never a mean of two. It is the lower median
  when the length is odd; when the length is even it is the upper of the two middle
  elements, not less than the lower median. For the indices 10, 20, 30, 40 it is 30.
\<close>

theorem median_is_middle_of_sorted:
  "(select_competition_index db c = \<lparr> data = Some rows, error = None \<rparr> \<and> rows \<noteq> [] \<longrightarrow>
      (\<exists>s. getCompetitionAnalysis db c = Inr s
            \<and> median s = Some (sort rows ! (length rows div 2))
            \<and> sort rows ! (length rows div 2) \<in> set rows
            \<and> lower_median rows \<le> sort rows ! (length rows div 2)
            \<and> (odd (length rows) \<longrightarrow> median s = Some (lower_median rows))))
   \<and> (select_competition_index db c = \<lparr> data = Some [10, 20, 30, 40], error = None \<rparr> \<longrightarrow>
      (\<exists>s. getCompetitionAnalysis db c = Inr s \<and> median s = Some 30))"
proof (intro conjI impI)
  assume h: "select_competition_index db c = \<lparr> data = Some rows, error = None \<rparr> \<and> rows \<noteq> []"
  then have "length rows div 2 < length (sort rows)"
    by simp
  then have "sort rows ! (length rows div 2) \<in> set (sort rows)"
    by (rule nth_mem)
  then have mem: "sort rows ! (length rows div 2) \<in> set rows"
    by simp
  have le: "lower_median rows \<le> sort rows ! (length rows div 2)"
    using h by (intro lower_median_le_middle) simp
  have ne: "sort rows \<noteq> []"
    using h by (metis length_0_conv length_sort)
  have med: "getCompetitionAnalysis db c =
      Inr \<lparr> low_competition = length (filter (\<lambda>i. i < 33) (sort rows)),
            medium_competition = length (filter (\<lambda>i. i \<ge> 33 \<and> i < 66) (sort rows)),
            high_competition = length (filter (\<lambda>i. i \<ge> 66) (sort rows)),
            average =
              Num (js_round (js_div (real_of_int (foldl (\<lambda>a b. a + b) 0 (sort rows)))
                                    (real (length (sort rows))))),
            median = Some (sort rows ! (length rows div 2)) \<rparr>"
    using h ne by (simp add: getCompetitionAnalysis_def Let_def js_sort_ascending)
  show "\<exists>s. getCompetitionAnalysis db c = Inr s
            \<and> median s = Some (sort rows ! (length rows div 2))
            \<and> sort rows ! (length rows div 2) \<in> set rows
            \<and> lower_median rows \<le> sort rows ! (length rows div 2)
            \<and> (odd (length rows) \<longrightarrow> median s = Some (lower_median rows))"
    unfolding med using mem le by (simp add: lower_median_odd)
next
  assume "select_competition_index db c = \<lparr> data = Some [10, 20, 30, 40], error = None \<rparr>"
  then show "\<exists>s. getCompetitionAnalysis db c = Inr s \<and> median s = Some 30"
    by (simp add: getCompetitionAnalysis_def Let_def js_sort_ascending)
qed

theorem median_is_middle_of_sorted_witness:
  "select_competition_index tie_db ''anime'' = \<lparr> data = Some [10, 20, 30, 40], error = None \<rparr>
   \<and> [10, 20, 30, 40 :: int] \<noteq> []
   \<and> (\<exists>s. getCompetitionAnalysis tie_db ''anime'' = Inr s
          \<and> median s = Some (sort [10, 20, 30, 40] ! (length [10, 20, 30, 40 :: int] div 2))
          \<and> lower_median [10, 20, 30, 40]
               \<le> sort [10, 20, 30, 40] ! (length [10, 20, 30, 40 :: int] div 2)
          \<and> median s = Some 30)"
proof -
  have h: "select_competition_index tie_db ''anime'' =
      \<lparr> data = Some [10, 20, 30, 40], error = None \<rparr>"
    by (simp add: tie_db_def)
  show ?thesis
    using h median_is_middle_of_sorted [of tie_db "''anime''" "[10, 20, 30, 40]"]
    by auto
qed

text \<open>
  C7 as the spec states it fails: for the indices 10, 20, 30, 40 the reported median is
  30, and the lower median is 20.
\<close>

theorem median_not_lower_counterexample:
  "\<exists>s. getCompetitionAnalysis tie_db ''anime'' = Inr s
       \<and> median s = Some 30
       \<and> lower_median [10, 20, 30, 40] = 20
       \<and> median s \<noteq> Some (lower_median [10, 20, 30, 40])"
  by (simp add: getCompetitionAnalysis_def tie_db_def js_sort_def lower_median_def)

text \<open>
  C4, as the code has it. When the read succeeds with no index, the operation does not
  fail: it returns a summary with the three counts 0, the average NaN and the median
  undefined.
\<close>

theorem getCompetitionAnalysis_empty_category:
  assumes "select_competition_index db c = \<lparr> data = Some [], error = None \<rparr>"
  shows "getCompetitionAnalysis db c =
     Inr \<lparr> low_competition = 0, medium_competition = 0, high_competition = 0,
           average = NaN, median = None \<rparr>"
  using assms by (simp add: getCompetitionAnalysis_def js_sort_def)

theorem getCompetitionAnalysis_empty_category_witness:
  "select_competition_index failing_metrics_db ''retro'' = \<lparr> data = Some [], error = None \<rparr>
   \<and> getCompetitionAnalysis failing_metrics_db ''retro'' =
       Inr \<lparr> low_competition = 0, medium_competition = 0, high_competition = 0,
             average = NaN, median = None \<rparr>"
proof -
  have h: "select_competition_index failing_metrics_db ''retro'' =
      \<lparr> data = Some [], error = None \<rparr>"
    by (simp add: failing_metrics_db_def)
  show ?thesis
    using h getCompetitionAnalysis_empty_category [OF h] by simp
qed

text \<open>
  C4 as the spec states it fails: on a category with no keyword the operation raises no
  error, and the summary it returns has a NaN average and an undefined median.
\<close>

theorem getCompetitionAnalysis_empty_counterexample:
  "(\<forall>e. getCompetitionAnalysis failing_metrics_db ''retro'' \<noteq> Inl e)
   \<and> (\<exists>s. getCompetitionAnalysis failing_metrics_db ''retro'' = Inr s
          \<and> average s = NaN \<and> median s = None)"
  by (simp add: getCompetitionAnalysis_def failing_metrics_db_def js_sort_def)

end
